theory Spec2Isabelle
  imports Complex_Main "HOL-Library.AList"
begin

section \<open>The tooltip service wrapper of the sample bar chart\<close>

text \<open>
  A shallow embedding of \<^verbatim>\<open>src/tooltipServiceWrapper.ts\<close>. The wrapper binds three
  mouse listeners to a d3 selection and drives the host's tooltip service. Everything
  the listeners do beyond computing values is made explicit: the calls of the host
  service and of the two caller-supplied delegates are recorded, in order, as a list of
  effects; the listeners that d3 holds are a table; \<^verbatim>\<open>d3.event\<close> is a parameter.

  JavaScript numbers are modelled as reals. The only arithmetic of the file is the
  subtraction in \<^verbatim>\<open>getCoordinates\<close>, kept in the source's left-to-right order.
\<close>

subsection \<open>DOM elements and events\<close>

text \<open>
  An element, with what the code reads of it: the rectangle of
  \<^verbatim>\<open>getBoundingClientRect()\<close>, \<^verbatim>\<open>clientLeft\<close>, \<^verbatim>\<open>clientTop\<close> and the datum that
  d3 has bound to it. \<open>node_id\<close> is the element's identity.
\<close>

record 'd Element =
  node_id :: nat
  rect_left :: real
  rect_top :: real
  clientLeft :: real
  clientTop :: real
  datum :: 'd

text \<open>
  An event, with what the code reads of it. \<open>buttons\<close> is \<open>None\<close> where the
  field is \<^verbatim>\<open>undefined\<close>; \<open>sourceEvent\<close> is the event that a d3 event wraps.
  \<open>timeStamp\<close> is the DOM's time of the event, in milliseconds; the code never reads it.
\<close>

datatype 'd Event = Event
  (buttons: "nat option")
  (clientX: real)
  (clientY: real)
  (sourceEvent: "'d Event option")
  (target: "'d Element")
  (timeStamp: real)

text \<open>
  The globals of d3 that the code reads while a listener runs: \<^verbatim>\<open>d3.event\<close>, and
  \<^verbatim>\<open>d3.touches(node)\<close>, the active touch points relative to a node.
\<close>

record 'd d3_env =
  d3_event :: "'d Event"
  d3_touches :: "'d Element \<Rightarrow> real list list option"

subsection \<open>Arguments, requests and effects\<close>

record 'd TooltipEventArgs =
  data :: 'd
  coordinates :: "real list option"
  elementCoordinates :: "real list option"
  context_node :: "'d Element"
  isTouchEvent :: bool

text \<open>
  The object literals passed to \<^verbatim>\<open>show\<close> and \<^verbatim>\<open>move\<close> (fields \<^verbatim>\<open>coordinates\<close>,
  \<^verbatim>\<open>isTouchEvent\<close>, \<^verbatim>\<open>dataItems\<close>, \<^verbatim>\<open>identities\<close>) and to \<^verbatim>\<open>hide\<close>
  (\<^verbatim>\<open>isTouchEvent\<close>, \<^verbatim>\<open>immediately\<close>). \<open>None\<close> is \<^verbatim>\<open>undefined\<close>.
\<close>

record ('i, 'id) TooltipOptions =
  opt_coordinates :: "real list option"
  opt_isTouchEvent :: bool
  opt_dataItems :: "'i list option"
  opt_identities :: "'id list"

record TooltipHideOptions =
  hide_isTouchEvent :: bool
  hide_immediately :: bool

text \<open>What a listener does to the outside, in the order in which it does it.\<close>

datatype ('d, 'i, 'id) effect =
    GetTooltipInfo "'d TooltipEventArgs"
  | GetDataPointIdentity "'d TooltipEventArgs"
  | Show "('i, 'id) TooltipOptions"
  | Move "('i, 'id) TooltipOptions"
  | Hide TooltipHideOptions

subsection \<open>The wrapper\<close>

record ITooltipService =
  enabled :: bool

record 'd TooltipServiceWrapper =
  handleTouchTimeoutId :: "nat option"
  visualHostTooltipService :: ITooltipService
  rootElement :: "'d Element"
  handleTouchDelay :: real

definition DefaultHandleTouchDelay :: real where
  "DefaultHandleTouchDelay = 1000"

text \<open>
  The constructor assigns three fields; \<open>handleTouchTimeoutId\<close> has no initialiser and
  is \<^verbatim>\<open>undefined\<close>. The delay is an optional parameter with a default.
\<close>

definition createTooltipServiceWrapper ::
  "ITooltipService \<Rightarrow> 'd Element \<Rightarrow> real option \<Rightarrow> 'd TooltipServiceWrapper" where
  "createTooltipServiceWrapper tooltipService rootElem delay =
     \<lparr> handleTouchTimeoutId = None,
       visualHostTooltipService = tooltipService,
       rootElement = rootElem,
       handleTouchDelay = (case delay of None \<Rightarrow> DefaultHandleTouchDelay | Some d \<Rightarrow> d) \<rparr>"

subsection \<open>canDisplayTooltip\<close>

definition canDisplayTooltip :: "'d TooltipServiceWrapper \<Rightarrow> 'd Event \<Rightarrow> bool" where
  "canDisplayTooltip this d3Event =
     (let canDisplay = True;
          canDisplay = (case buttons d3Event of
                          None \<Rightarrow> canDisplay
                        | Some b \<Rightarrow> (let hasMouseButtonPressed = (b \<noteq> 0)
                                     in \<not> hasMouseButtonPressed))
      in canDisplay \<and> handleTouchTimeoutId this = None)"

subsection \<open>getCoordinates and makeTooltipEventArgs\<close>

text \<open>The loop \<^verbatim>\<open>while (s = e.sourceEvent) e = s;\<close> of \<^verbatim>\<open>getCoordinates\<close>.\<close>

fun d3_eventSource :: "'d Event \<Rightarrow> 'd Event" where
  "d3_eventSource (Event b x y None t ts) = Event b x y None t ts"
| "d3_eventSource (Event b x y (Some s) t ts) = d3_eventSource s"

definition getCoordinates :: "'d d3_env \<Rightarrow> 'd Element \<Rightarrow> bool \<Rightarrow> real list option" where
  "getCoordinates d3 rootNode isPointerEvent =
     (if isPointerEvent then
        (let e = d3_eventSource (d3_event d3)
         in Some [clientX e - rect_left rootNode - clientLeft rootNode,
                  clientY e - rect_top rootNode - clientTop rootNode])
      else
        (case d3_touches d3 rootNode of
           None \<Rightarrow> None
         | Some touchCoordinates \<Rightarrow>
             if length touchCoordinates > 0 then Some (touchCoordinates ! 0) else None))"

text \<open>
  \<^verbatim>\<open>makeTooltipEventArgs\<close> always returns an object; the listeners test the reference
  (\<^verbatim>\<open>if (!tooltipEventArgs) return;\<close>), so the result is an option that is never
  \<open>None\<close>.
\<close>

definition makeTooltipEventArgs ::
  "'d d3_env \<Rightarrow> 'd Element \<Rightarrow> bool \<Rightarrow> bool \<Rightarrow> 'd TooltipEventArgs option" where
  "makeTooltipEventArgs d3 rootNode isPointerEvent isTouch =
     (let tgt = target (d3_event d3);
          dat = datum tgt;
          mouseCoordinates = getCoordinates d3 rootNode isPointerEvent;
          elemCoordinates = getCoordinates d3 tgt isPointerEvent
      in Some \<lparr> data = dat,
                coordinates = mouseCoordinates,
                elementCoordinates = elemCoordinates,
                context_node = tgt,
                isTouchEvent = isTouch \<rparr>)"

subsection \<open>The three listeners of addTooltip\<close>

text \<open>
  \<^verbatim>\<open>selectionId ? [selectionId] : []\<close>: an \<^verbatim>\<open>ISelectionId\<close> is an object, so it is
  falsy only where it is \<^verbatim>\<open>null\<close> or \<^verbatim>\<open>undefined\<close>.
\<close>

definition identities_of :: "'id option \<Rightarrow> 'id list" where
  "identities_of selectionId = (case selectionId of None \<Rightarrow> [] | Some s \<Rightarrow> [s])"

definition mouseover_tooltip ::
  "'d TooltipServiceWrapper \<Rightarrow> 'd Element \<Rightarrow>
   ('d TooltipEventArgs \<Rightarrow> 'i list option) \<Rightarrow> ('d TooltipEventArgs \<Rightarrow> 'id option) \<Rightarrow>
   'd d3_env \<Rightarrow> ('d, 'i, 'id) effect list" where
  "mouseover_tooltip this rootNode getTooltipInfoDelegate getDataPointIdentity d3 =
     (if \<not> canDisplayTooltip this (d3_event d3) then []
      else case makeTooltipEventArgs d3 rootNode True False of
        None \<Rightarrow> []
      | Some tooltipEventArgs \<Rightarrow>
          (case getTooltipInfoDelegate tooltipEventArgs of
             None \<Rightarrow> [GetTooltipInfo tooltipEventArgs]
           | Some tooltipInfo \<Rightarrow>
               (let selectionId = getDataPointIdentity tooltipEventArgs
                in [GetTooltipInfo tooltipEventArgs,
                    GetDataPointIdentity tooltipEventArgs,
                    Show \<lparr> opt_coordinates = coordinates tooltipEventArgs,
                           opt_isTouchEvent = False,
                           opt_dataItems = Some tooltipInfo,
                           opt_identities = identities_of selectionId \<rparr>])))"

definition mouseout_tooltip :: "('d, 'i, 'id) effect list" where
  "mouseout_tooltip = [Hide \<lparr> hide_isTouchEvent = False, hide_immediately = False \<rparr>]"

text \<open>
  \<^verbatim>\<open>reloadTooltipDataOnMouseMove\<close> is an optional parameter, tested for truthiness;
  \<^verbatim>\<open>tooltipInfo\<close> is declared without a value and stays \<^verbatim>\<open>undefined\<close> unless reloaded.
\<close>

definition mousemove_tooltip ::
  "'d TooltipServiceWrapper \<Rightarrow> 'd Element \<Rightarrow>
   ('d TooltipEventArgs \<Rightarrow> 'i list option) \<Rightarrow> ('d TooltipEventArgs \<Rightarrow> 'id option) \<Rightarrow>
   bool option \<Rightarrow> 'd d3_env \<Rightarrow> ('d, 'i, 'id) effect list" where
  "mousemove_tooltip this rootNode getTooltipInfoDelegate getDataPointIdentity
       reloadTooltipDataOnMouseMove d3 =
     (if \<not> canDisplayTooltip this (d3_event d3) then []
      else case makeTooltipEventArgs d3 rootNode True False of
        None \<Rightarrow> []
      | Some tooltipEventArgs \<Rightarrow>
          (if reloadTooltipDataOnMouseMove = Some True then
             (case getTooltipInfoDelegate tooltipEventArgs of
                None \<Rightarrow> [GetTooltipInfo tooltipEventArgs]
              | Some tooltipInfo \<Rightarrow>
                  (let selectionId = getDataPointIdentity tooltipEventArgs
                   in [GetTooltipInfo tooltipEventArgs,
                       GetDataPointIdentity tooltipEventArgs,
                       Move \<lparr> opt_coordinates = coordinates tooltipEventArgs,
                              opt_isTouchEvent = False,
                              opt_dataItems = Some tooltipInfo,
                              opt_identities = identities_of selectionId \<rparr>]))
           else
             (let selectionId = getDataPointIdentity tooltipEventArgs
              in [GetDataPointIdentity tooltipEventArgs,
                  Move \<lparr> opt_coordinates = coordinates tooltipEventArgs,
                         opt_isTouchEvent = False,
                         opt_dataItems = None,
                         opt_identities = identities_of selectionId \<rparr>])))"

subsection \<open>Listeners held by d3, and the operations of the wrapper\<close>

text \<open>
  A listener is a closure: it captures \<^verbatim>\<open>rootNode\<close>, the two delegates and the reload
  flag of the call of \<^verbatim>\<open>addTooltip\<close> that made it.
\<close>

datatype ('d, 'i, 'id) listener =
    MouseOver "'d Element" "'d TooltipEventArgs \<Rightarrow> 'i list option"
      "'d TooltipEventArgs \<Rightarrow> 'id option"
  | MouseOut
  | MouseMove "'d Element" "'d TooltipEventArgs \<Rightarrow> 'i list option"
      "'d TooltipEventArgs \<Rightarrow> 'id option" "bool option"

fun run_listener ::
  "'d TooltipServiceWrapper \<Rightarrow> 'd d3_env \<Rightarrow> ('d, 'i, 'id) listener \<Rightarrow> ('d, 'i, 'id) effect list" where
  "run_listener this d3 (MouseOver rootNode info ident) =
     mouseover_tooltip this rootNode info ident d3"
| "run_listener this d3 MouseOut = mouseout_tooltip"
| "run_listener this d3 (MouseMove rootNode info ident reload) =
     mousemove_tooltip this rootNode info ident reload d3"

text \<open>
  The state: the wrapper, the listeners that d3 holds (keyed by the node and the name
  given to \<^verbatim>\<open>selection.on\<close>), and the effects so far.
\<close>

record ('d, 'i, 'id) world =
  wrapper :: "'d TooltipServiceWrapper"
  listeners :: "((nat \<times> string) \<times> ('d, 'i, 'id) listener) list"
  trace :: "('d, 'i, 'id) effect list"

text \<open>
  \<^verbatim>\<open>selection.on(name, listener)\<close> of d3: on every element of the selection, the
  listener registered under that name is replaced.
\<close>

definition selection_on ::
  "'d Element list \<Rightarrow> string \<Rightarrow> ('d, 'i, 'id) listener \<Rightarrow>
   ('d, 'i, 'id) world \<Rightarrow> ('d, 'i, 'id) world" where
  "selection_on selection name l s =
     s\<lparr> listeners := fold (\<lambda>el tbl. AList.update (node_id el, name) l tbl) selection (listeners s) \<rparr>"

text \<open>A selection is \<open>None\<close> where the reference is \<^verbatim>\<open>null\<close> or \<^verbatim>\<open>undefined\<close>.\<close>

definition addTooltip ::
  "'d Element list option \<Rightarrow>
   ('d TooltipEventArgs \<Rightarrow> 'i list option) \<Rightarrow> ('d TooltipEventArgs \<Rightarrow> 'id option) \<Rightarrow>
   bool option \<Rightarrow> ('d, 'i, 'id) world \<Rightarrow> ('d, 'i, 'id) world" where
  "addTooltip selection getTooltipInfoDelegate getDataPointIdentity reloadTooltipDataOnMouseMove s =
     (case selection of
        None \<Rightarrow> s
      | Some sel \<Rightarrow>
          if \<not> enabled (visualHostTooltipService (wrapper s)) then s
          else
            (let rootNode = rootElement (wrapper s);
                 s1 = selection_on sel ''mouseover.tooltip''
                        (MouseOver rootNode getTooltipInfoDelegate getDataPointIdentity) s;
                 s2 = selection_on sel ''mouseout.tooltip'' MouseOut s1
             in selection_on sel ''mousemove.tooltip''
                  (MouseMove rootNode getTooltipInfoDelegate getDataPointIdentity
                     reloadTooltipDataOnMouseMove) s2))"

definition hide :: "('d, 'i, 'id) world \<Rightarrow> ('d, 'i, 'id) world" where
  "hide s = s\<lparr> trace := trace s @ [Hide \<lparr> hide_isTouchEvent = False, hide_immediately = True \<rparr>] \<rparr>"

text \<open>
  The browser delivers an event of type \<open>ty\<close> to a node: d3 sets \<^verbatim>\<open>d3.event\<close> and runs
  the listeners of that node whose name has that type before the dot.
\<close>

definition event_type :: "string \<Rightarrow> string" where
  "event_type name = takeWhile (\<lambda>c. c \<noteq> CHR ''.'') name"

definition listeners_for ::
  "nat \<Rightarrow> string \<Rightarrow> ((nat \<times> string) \<times> ('d, 'i, 'id) listener) list \<Rightarrow> ('d, 'i, 'id) listener list" where
  "listeners_for n ty tbl =
     map snd (filter (\<lambda>((m, name), l). m = n \<and> event_type name = ty) tbl)"

definition dispatch ::
  "nat \<Rightarrow> string \<Rightarrow> 'd d3_env \<Rightarrow> ('d, 'i, 'id) world \<Rightarrow> ('d, 'i, 'id) world" where
  "dispatch n ty d3 s =
     s\<lparr> trace := trace s @ concat (map (run_listener (wrapper s) d3) (listeners_for n ty (listeners s))) \<rparr>"

text \<open>The operations that can happen to a wrapper once it is made, and their runs.\<close>

datatype ('d, 'i, 'id) operation =
    AddTooltip "'d Element list option" "'d TooltipEventArgs \<Rightarrow> 'i list option"
      "'d TooltipEventArgs \<Rightarrow> 'id option" "bool option"
  | HideTooltip
  | Dispatch nat string "'d d3_env"

fun step :: "('d, 'i, 'id) operation \<Rightarrow> ('d, 'i, 'id) world \<Rightarrow> ('d, 'i, 'id) world" where
  "step (AddTooltip selection info ident reload) s = addTooltip selection info ident reload s"
| "step HideTooltip s = hide s"
| "step (Dispatch n ty d3) s = dispatch n ty d3 s"

definition initial ::
  "ITooltipService \<Rightarrow> 'd Element \<Rightarrow> real option \<Rightarrow> ('d, 'i, 'id) world" where
  "initial tooltipService rootElem delay =
     \<lparr> wrapper = createTooltipServiceWrapper tooltipService rootElem delay,
       listeners = [],
       trace = [] \<rparr>"

definition run :: "('d, 'i, 'id) operation list \<Rightarrow> ('d, 'i, 'id) world \<Rightarrow> ('d, 'i, 'id) world" where
  "run ops s = fold step ops s"

subsection \<open>Notions used to state the properties\<close>

text \<open>
  The events that an event wraps, from the event itself down to the one that wraps
  nothing: the root source event is the last of them.
\<close>

fun wrapping_chain :: "'d Event \<Rightarrow> 'd Event list" where
  "wrapping_chain (Event b x y None t ts) = [Event b x y None t ts]"
| "wrapping_chain (Event b x y (Some s) t ts) = Event b x y (Some s) t ts # wrapping_chain s"

text \<open>The names under which \<^verbatim>\<open>addTooltip\<close> registers listeners.\<close>

definition tooltip_names :: "string set" where
  "tooltip_names = {''mouseover.tooltip'', ''mouseout.tooltip'', ''mousemove.tooltip''}"

text \<open>A table with one listener for each key, all under those names.\<close>

definition table_ok :: "((nat \<times> string) \<times> ('d, 'i, 'id) listener) list \<Rightarrow> bool" where
  "table_ok tbl = (distinct (map fst tbl) \<and> (\<forall>k \<in> fst ` set tbl. snd k \<in> tooltip_names))"

text \<open>The operations that register listeners.\<close>

fun rebinds :: "('d, 'i, 'id) operation \<Rightarrow> bool" where
  "rebinds (AddTooltip selection info ident reload) = True"
| "rebinds HideTooltip = False"
| "rebinds (Dispatch n ty d3) = False"

subsection \<open>Sample data\<close>

text \<open>
  A root element at viewport offset (100, 50) and a bar inside it at (120, 60), both
  without client offsets; node 1 is the bar.
\<close>

definition root0 :: "nat Element" where
  "root0 = \<lparr> node_id = 0, rect_left = 100, rect_top = 50, clientLeft = 0, clientTop = 0,
             datum = 0 \<rparr>"

definition bar0 :: "nat Element" where
  "bar0 = \<lparr> node_id = 1, rect_left = 120, rect_top = 60, clientLeft = 0, clientTop = 0,
            datum = 42 \<rparr>"

definition no_touches :: "nat Element \<Rightarrow> real list list option" where
  "no_touches el = Some []"

definition one_touch :: "nat Element \<Rightarrow> real list list option" where
  "one_touch el = Some [[30, 40]]"

text \<open>
  A finger goes down on the bar at time 0 and up at time 1000; the browser then
  synthesises a mouse-over at time 1010, with no button pressed. A touch event has
  neither \<^verbatim>\<open>buttons\<close> nor \<^verbatim>\<open>clientX\<close>; no listener runs on the two touch events,
  so the zeros that stand for their \<^verbatim>\<open>clientX\<close> and \<^verbatim>\<open>clientY\<close> are never read.
\<close>

definition touchstart0 :: "nat d3_env" where
  "touchstart0 = \<lparr> d3_event = Event None 0 0 None bar0 0, d3_touches = one_touch \<rparr>"

definition touchend0 :: "nat d3_env" where
  "touchend0 = \<lparr> d3_event = Event None 0 0 None bar0 1000, d3_touches = no_touches \<rparr>"

definition over0 :: "nat d3_env" where
  "over0 = \<lparr> d3_event = Event (Some 0) 130 90 None bar0 1010, d3_touches = no_touches \<rparr>"

text \<open>A mouse-over with the left button down, a mouse-move, and an event wrapped twice.\<close>

definition pressed0 :: "nat d3_env" where
  "pressed0 = \<lparr> d3_event = Event (Some 1) 130 90 None bar0 2000, d3_touches = no_touches \<rparr>"

definition move0 :: "nat d3_env" where
  "move0 = \<lparr> d3_event = Event (Some 0) 135 95 None bar0 2010, d3_touches = no_touches \<rparr>"

definition wrapped0 :: "nat d3_env" where
  "wrapped0 =
     \<lparr> d3_event =
         Event None 0 0
           (Some (Event None 7 7 (Some (Event (Some 0) 130 90 None bar0 5)) bar0 5)) bar0 5,
       d3_touches = no_touches \<rparr>"

definition svc0 :: ITooltipService where
  "svc0 = \<lparr> enabled = True \<rparr>"

definition svc_off :: ITooltipService where
  "svc_off = \<lparr> enabled = False \<rparr>"

definition info0 :: "nat TooltipEventArgs \<Rightarrow> string list option" where
  "info0 a = Some [''value'']"

definition info_null :: "nat TooltipEventArgs \<Rightarrow> string list option" where
  "info_null a = None"

definition ident0 :: "nat TooltipEventArgs \<Rightarrow> nat option" where
  "ident0 a = Some (data a)"

definition ident_null :: "nat TooltipEventArgs \<Rightarrow> nat option" where
  "ident_null a = None"

definition args0 :: "nat TooltipEventArgs" where
  "args0 = \<lparr> data = 42, coordinates = Some [30, 40], elementCoordinates = Some [10, 30],
             context_node = bar0, isTouchEvent = False \<rparr>"

definition w0 :: "nat TooltipServiceWrapper" where
  "w0 = createTooltipServiceWrapper svc0 root0 None"

definition world0 :: "(nat, string, nat) world" where
  "world0 = initial svc0 root0 None"

section \<open>Properties\<close>

subsection \<open>Auxiliary facts\<close>

lemma step_wrapper: "wrapper (step op s) = wrapper s"
  by (cases op)
     (simp_all add: addTooltip_def selection_on_def hide_def dispatch_def Let_def
        split: option.splits)

lemma fold_step_wrapper: "wrapper (fold step ops s) = wrapper s"
  by (induction ops arbitrary: s) (simp_all add: step_wrapper)

lemma run_wrapper: "wrapper (run ops s) = wrapper s"
  by (simp add: run_def fold_step_wrapper)

lemma wrapping_chain_not_Nil: "wrapping_chain e \<noteq> []"
  by (induction e rule: wrapping_chain.induct) simp_all

lemma d3_eventSource_last: "d3_eventSource e = last (wrapping_chain e)"
  by (induction e rule: d3_eventSource.induct) (simp_all add: wrapping_chain_not_Nil)

lemma d3_eventSource_root: "sourceEvent (d3_eventSource e) = None"
  by (induction e rule: d3_eventSource.induct) simp_all

lemma event_type_mousemove:
  "name \<in> tooltip_names \<Longrightarrow> (event_type name = ''mousemove'') = (name = ''mousemove.tooltip'')"
  by (auto simp: tooltip_names_def event_type_def)

text \<open>In a well-formed table at most one listener answers a mouse-move on a node.\<close>

lemma listeners_for_mousemove:
  "table_ok tbl \<Longrightarrow>
   listeners_for n ''mousemove'' tbl =
     (case map_of tbl (n, ''mousemove.tooltip'') of None \<Rightarrow> [] | Some l \<Rightarrow> [l])"
proof (induction tbl)
  case Nil
  then show ?case by (simp add: listeners_for_def)
next
  case (Cons x tbl)
  obtain m name l where x: "x = ((m, name), l)" by (cases x) auto
  from Cons.prems have ok: "table_ok tbl" and name: "name \<in> tooltip_names"
    and fresh: "(m, name) \<notin> fst ` set tbl"
    by (auto simp: table_ok_def x)
  have rest: "listeners_for n ''mousemove'' tbl =
      (case map_of tbl (n, ''mousemove.tooltip'') of None \<Rightarrow> [] | Some l \<Rightarrow> [l])"
    using Cons.IH ok by simp
  show ?case
  proof (cases "m = n \<and> name = ''mousemove.tooltip''")
    case True
    with fresh have "map_of tbl (n, ''mousemove.tooltip'') = None"
      by (simp add: map_of_eq_None_iff)
    with rest have "listeners_for n ''mousemove'' tbl = []" by simp
    with True show ?thesis
      by (simp add: x listeners_for_def event_type_def)
  next
    case False
    with name have "\<not> (m = n \<and> event_type name = ''mousemove'')"
      by (simp add: event_type_mousemove)
    with False rest show ?thesis
      by (auto simp: x listeners_for_def)
  qed
qed

lemma fold_update_ok:
  "table_ok tbl \<Longrightarrow> name \<in> tooltip_names \<Longrightarrow>
   table_ok (fold (\<lambda>el tbl. AList.update (node_id el, name) l tbl) selection tbl)"
proof (induction selection arbitrary: tbl)
  case Nil
  then show ?case by simp
next
  case (Cons el selection)
  have "table_ok (AList.update (node_id el, name) l tbl)"
    using Cons.prems by (auto simp: table_ok_def distinct_update dom_update)
  then show ?case using Cons.IH Cons.prems(2) by simp
qed

lemma fold_update_map_of:
  "map_of (fold (\<lambda>el tbl. AList.update (node_id el, name) l tbl) selection tbl) k =
     (if k \<in> (\<lambda>el. (node_id el, name)) ` set selection then Some l else map_of tbl k)"
  by (induction selection arbitrary: tbl) (auto simp: update_conv')

lemma addTooltip_ok:
  "table_ok (listeners s) \<Longrightarrow> table_ok (listeners (addTooltip selection info ident reload s))"
  by (auto simp: addTooltip_def selection_on_def Let_def fold_update_ok tooltip_names_def
        split: option.splits)

lemma step_ok: "table_ok (listeners s) \<Longrightarrow> table_ok (listeners (step op s))"
  by (cases op) (simp_all add: addTooltip_ok hide_def dispatch_def)

lemma run_ok: "table_ok (listeners s) \<Longrightarrow> table_ok (listeners (run ops s))"
  unfolding run_def by (induction ops arbitrary: s) (simp_all add: step_ok)

lemma initial_ok: "table_ok (listeners (initial tooltipService rootElem delay))"
  by (simp add: initial_def table_ok_def)

lemma step_listeners: "\<not> rebinds op \<Longrightarrow> listeners (step op s) = listeners s"
  by (cases op) (simp_all add: hide_def dispatch_def)

lemma run_listeners: "\<forall>op \<in> set ops. \<not> rebinds op \<Longrightarrow> listeners (run ops s) = listeners s"
  unfolding run_def by (induction ops arbitrary: s) (simp_all add: step_listeners)

lemma addTooltip_mousemove_listener:
  "enabled (visualHostTooltipService (wrapper s)) \<Longrightarrow> el \<in> set sel \<Longrightarrow>
   map_of (listeners (addTooltip (Some sel) info ident reload s)) (node_id el, ''mousemove.tooltip'')
     = Some (MouseMove (rootElement (wrapper s)) info ident reload)"
  by (auto simp: addTooltip_def selection_on_def Let_def fold_update_map_of)

lemma mousemove_tooltip_without_reload:
  "canDisplayTooltip this (d3_event d3) \<Longrightarrow> reload \<noteq> Some True \<Longrightarrow>
   \<exists>a c. makeTooltipEventArgs d3 rootNode True False = Some a \<and> coordinates a = Some c \<and>
     mousemove_tooltip this rootNode info ident reload d3 =
       [GetDataPointIdentity a,
        Move \<lparr> opt_coordinates = Some c, opt_isTouchEvent = False, opt_dataItems = None,
               opt_identities = (case ident a of None \<Rightarrow> [] | Some i \<Rightarrow> [i]) \<rparr>]"
  by (simp add: mousemove_tooltip_def makeTooltipEventArgs_def getCoordinates_def
        identities_of_def Let_def)

text \<open>
  The pointer branch of \<open>getCoordinates\<close> always yields a pair, and
  \<open>makeTooltipEventArgs\<close> always returns an object: the test of the returned reference
  in the mouse-over and mouse-move listeners never fails, and these listeners, which take
  the pointer branch, never see undefined coordinates.
\<close>

lemma pointer_branch_resolves: "getCoordinates d3 node True \<noteq> None"
  by (simp add: getCoordinates_def Let_def)

lemma makeTooltipEventArgs_returns_object:
  "makeTooltipEventArgs d3 rootNode isPointerEvent isTouch \<noteq> None"
  by (simp add: makeTooltipEventArgs_def Let_def)

text \<open>
  With the touch branch and no active touch point, \<open>makeTooltipEventArgs\<close> still
  returns an object; its coordinates are undefined. No listener of \<open>addTooltip\<close> takes
  this branch.
\<close>

lemma makeTooltipEventArgs_no_touches:
  "d3_touches d3 rootNode = Some [] \<Longrightarrow>
   \<exists>a. makeTooltipEventArgs d3 rootNode False isTouch = Some a \<and> coordinates a = None"
  by (simp add: makeTooltipEventArgs_def getCoordinates_def Let_def)

text \<open>Evaluation of the sample data.\<close>

lemma makeTooltipEventArgs_over0: "makeTooltipEventArgs over0 root0 True False = Some args0"
  by (simp add: makeTooltipEventArgs_def getCoordinates_def over0_def root0_def bar0_def
        args0_def Let_def)

lemma w0_simps:
  "handleTouchTimeoutId w0 = None" "rootElement w0 = root0" "visualHostTooltipService w0 = svc0"
  by (simp_all add: w0_def createTooltipServiceWrapper_def)

lemma canDisplayTooltip_w0_over0: "canDisplayTooltip w0 (d3_event over0)"
  by (simp add: canDisplayTooltip_def w0_simps over0_def)

lemma world0_simps:
  "wrapper world0 = w0" "listeners world0 = []" "trace world0 = []"
  by (simp_all add: world0_def initial_def w0_def)

lemma addTooltip_world0:
  "addTooltip (Some [bar0]) info ident reload world0 =
     \<lparr> wrapper = w0,
       listeners = [((1, ''mouseover.tooltip''), MouseOver root0 info ident),
                    ((1, ''mouseout.tooltip''), MouseOut),
                    ((1, ''mousemove.tooltip''), MouseMove root0 info ident reload)],
       trace = [] \<rparr>"
  by (simp add: addTooltip_def selection_on_def Let_def world0_def initial_def w0_def
        createTooltipServiceWrapper_def svc0_def bar0_def)

lemma event_type_names:
  "event_type ''mouseover.tooltip'' = ''mouseover''"
  "event_type ''mouseout.tooltip'' = ''mouseout''"
  "event_type ''mousemove.tooltip'' = ''mousemove''"
  by (simp_all add: event_type_def)

subsection \<open>The arbitration gate\<close>

text \<open>
  Claim C5. \<open>canDisplayTooltip\<close> returns false exactly when the event has a
  \<open>buttons\<close> field that is not zero (some mouse button is pressed), or the timer handle
  \<open>handleTouchTimeoutId\<close> is not null; in every other case it returns true.
\<close>

theorem canDisplayTooltip_denies_iff:
  "(canDisplayTooltip this d3Event = False) =
     ((\<exists>b. buttons d3Event = Some b \<and> b \<noteq> 0) \<or> handleTouchTimeoutId this \<noteq> None)"
  by (auto simp: canDisplayTooltip_def Let_def split: option.splits)

theorem canDisplayTooltip_denies_iff_witness:
  "canDisplayTooltip w0 (d3_event pressed0) = False
   \<and> canDisplayTooltip (w0\<lparr> handleTouchTimeoutId := Some 7 \<rparr>) (d3_event over0) = False
   \<and> canDisplayTooltip w0 (d3_event over0) = True
   \<and> canDisplayTooltip w0 (d3_event touchend0) = True"
  using canDisplayTooltip_denies_iff [of w0 "d3_event pressed0"]
    canDisplayTooltip_denies_iff [of "w0\<lparr> handleTouchTimeoutId := Some 7 \<rparr>" "d3_event over0"]
    canDisplayTooltip_denies_iff [of w0 "d3_event over0"]
    canDisplayTooltip_denies_iff [of w0 "d3_event touchend0"]
  by (simp add: w0_simps pressed0_def over0_def touchend0_def)

text \<open>
  Claim C3. Whatever operations follow the construction of a wrapper (calls of
  \<open>addTooltip\<close> and \<open>hide\<close>, events of any type on any node), \<open>handleTouchTimeoutId\<close>
  is still unset; so the gate allows an event exactly when its \<open>buttons\<close> field is
  undefined or zero.
\<close>

theorem handleTouchTimeoutId_never_set:
  "handleTouchTimeoutId (wrapper (run ops (initial tooltipService rootElem delay))) = None
   \<and> canDisplayTooltip (wrapper (run ops (initial tooltipService rootElem delay))) d3Event
       = (buttons d3Event = None \<or> buttons d3Event = Some 0)"
  by (auto simp: run_wrapper initial_def createTooltipServiceWrapper_def
        canDisplayTooltip_def Let_def split: option.splits)

theorem handleTouchTimeoutId_never_set_witness:
  "handleTouchTimeoutId
     (wrapper (run [AddTooltip (Some [bar0]) info0 ident0 None,
                    Dispatch 1 ''touchstart'' touchstart0,
                    Dispatch 1 ''touchend'' touchend0,
                    HideTooltip] (initial svc0 root0 None))) = None
   \<and> canDisplayTooltip
       (wrapper (run [AddTooltip (Some [bar0]) info0 ident0 None,
                      Dispatch 1 ''touchstart'' touchstart0,
                      Dispatch 1 ''touchend'' touchend0,
                      HideTooltip] (initial svc0 root0 None))) (d3_event over0)"
  using handleTouchTimeoutId_never_set
    [of "[AddTooltip (Some [bar0]) info0 ident0 None,
          Dispatch 1 ''touchstart'' touchstart0,
          Dispatch 1 ''touchend'' touchend0,
          HideTooltip]" svc0 root0 None "d3_event over0"]
  by (simp add: over0_def)

text \<open>
  Claim C1, evaluated on the code. The bar is attached; a touch-start, a touch-end and,
  10 ms after the touch-end (the delay is 1000 ms), a mouse-over with no button pressed
  reach it. No listener answers the touch events, the timer handle stays unset, and the
  mouse-over calls \<open>show\<close>.
\<close>

theorem mouseover_after_touch_shows:
  "trace (run [AddTooltip (Some [bar0]) info0 ident0 None,
               Dispatch 1 ''touchstart'' touchstart0,
               Dispatch 1 ''touchend'' touchend0,
               Dispatch 1 ''mouseover'' over0] world0)
     = [GetTooltipInfo args0,
        GetDataPointIdentity args0,
        Show \<lparr> opt_coordinates = Some [30, 40], opt_isTouchEvent = False,
               opt_dataItems = Some [''value''], opt_identities = [42] \<rparr>]
   \<and> timeStamp (d3_event over0) - timeStamp (d3_event touchend0) < handleTouchDelay (wrapper world0)"
proof -
  have "mouseover_tooltip w0 root0 info0 ident0 over0
          = [GetTooltipInfo args0,
             GetDataPointIdentity args0,
             Show \<lparr> opt_coordinates = Some [30, 40], opt_isTouchEvent = False,
                    opt_dataItems = Some [''value''], opt_identities = [42] \<rparr>]"
    by (simp add: mouseover_tooltip_def canDisplayTooltip_w0_over0 makeTooltipEventArgs_over0
          info0_def ident0_def identities_of_def args0_def)
  then have "trace (run [AddTooltip (Some [bar0]) info0 ident0 None,
               Dispatch 1 ''touchstart'' touchstart0,
               Dispatch 1 ''touchend'' touchend0,
               Dispatch 1 ''mouseover'' over0] world0)
     = [GetTooltipInfo args0,
        GetDataPointIdentity args0,
        Show \<lparr> opt_coordinates = Some [30, 40], opt_isTouchEvent = False,
               opt_dataItems = Some [''value''], opt_identities = [42] \<rparr>]"
    by (simp add: run_def addTooltip_world0 dispatch_def listeners_for_def event_type_names)
  moreover have "timeStamp (d3_event over0) - timeStamp (d3_event touchend0)
                   < handleTouchDelay (wrapper world0)"
    by (simp add: over0_def touchend0_def world0_simps w0_def createTooltipServiceWrapper_def
          DefaultHandleTouchDelay_def)
  ultimately show ?thesis by simp
qed

subsection \<open>Coordinates\<close>

text \<open>
  Claim C6. For a pointer event, the coordinates relative to a node are
  \<open>[clientX - left - clientLeft, clientY - top - clientTop]\<close>, where \<open>clientX\<close> and
  \<open>clientY\<close> are those of the root source event (the last event of the wrapping chain,
  which wraps nothing) and \<open>left\<close>, \<open>top\<close> those of the node's bounding rectangle. For
  a node at (100, 50) without client offsets and a source event at (130, 90), they are
  \<open>[30, 40]\<close>.
\<close>

theorem getCoordinates_pointer:
  "getCoordinates d3 node True =
     Some [clientX (last (wrapping_chain (d3_event d3))) - rect_left node - clientLeft node,
           clientY (last (wrapping_chain (d3_event d3))) - rect_top node - clientTop node]
   \<and> sourceEvent (last (wrapping_chain (d3_event d3))) = None
   \<and> (rect_left node = 100 \<and> rect_top node = 50 \<and> clientLeft node = 0 \<and> clientTop node = 0
        \<and> clientX (last (wrapping_chain (d3_event d3))) = 130
        \<and> clientY (last (wrapping_chain (d3_event d3))) = 90
      \<longrightarrow> getCoordinates d3 node True = Some [30, 40])"
  using d3_eventSource_root [of "d3_event d3"]
  by (simp add: getCoordinates_def Let_def d3_eventSource_last)

theorem getCoordinates_pointer_witness:
  "rect_left root0 = 100 \<and> rect_top root0 = 50 \<and> clientLeft root0 = 0 \<and> clientTop root0 = 0
   \<and> last (wrapping_chain (d3_event wrapped0)) = Event (Some 0) 130 90 None bar0 5
   \<and> getCoordinates wrapped0 root0 True = Some [30, 40]"
  using getCoordinates_pointer [of wrapped0 root0]
  by (simp add: wrapped0_def root0_def)

subsection \<open>The mouse-over listener\<close>

text \<open>
  Claim C8. If \<open>getTooltipInfoDelegate\<close> returns null for the arguments of a mouse-over
  event, the listener does not call \<open>show\<close>.
\<close>

theorem mouseover_null_info_no_show:
  "makeTooltipEventArgs d3 rootNode True False = Some a \<Longrightarrow> info a = None
   \<Longrightarrow> Show r \<notin> set (mouseover_tooltip this rootNode info ident d3)"
  by (simp add: mouseover_tooltip_def)

theorem mouseover_null_info_no_show_witness:
  "makeTooltipEventArgs over0 root0 True False = Some args0 \<and> info_null args0 = None
   \<and> mouseover_tooltip w0 root0 info_null ident0 over0 = [GetTooltipInfo args0]
   \<and> (\<forall>r. Show r \<notin> set (mouseover_tooltip w0 root0 info_null ident0 over0))"
proof -
  have a: "makeTooltipEventArgs over0 root0 True False = Some args0"
    by (rule makeTooltipEventArgs_over0)
  have n: "info_null args0 = None"
    by (simp add: info_null_def)
  have "mouseover_tooltip w0 root0 info_null ident0 over0 = [GetTooltipInfo args0]"
    by (simp add: mouseover_tooltip_def canDisplayTooltip_w0_over0 a n)
  with a n mouseover_null_info_no_show [where info = info_null and this = w0 and ident = ident0, OF a n]
  show ?thesis by blast
qed

text \<open>
  Claim C9. In a \<open>show\<close> request of the mouse-over listener, \<open>identities\<close> is the empty
  list if \<open>getDataPointIdentity\<close> returns null, and the one-element list of the identity
  if it returns one.
\<close>

theorem mouseover_show_identities:
  "Show r \<in> set (mouseover_tooltip this rootNode info ident d3) \<Longrightarrow>
   makeTooltipEventArgs d3 rootNode True False = Some a \<Longrightarrow>
   (ident a = None \<longrightarrow> opt_identities r = []) \<and> (\<forall>i. ident a = Some i \<longrightarrow> opt_identities r = [i])"
  by (auto simp: mouseover_tooltip_def identities_of_def Let_def split: if_splits option.splits)

theorem mouseover_show_identities_witness:
  "Show \<lparr> opt_coordinates = Some [30, 40], opt_isTouchEvent = False,
          opt_dataItems = Some [''value''], opt_identities = [] \<rparr>
     \<in> set (mouseover_tooltip w0 root0 info0 ident_null over0)
   \<and> ident_null args0 = None
   \<and> Show \<lparr> opt_coordinates = Some [30, 40], opt_isTouchEvent = False,
            opt_dataItems = Some [''value''], opt_identities = [42] \<rparr>
     \<in> set (mouseover_tooltip w0 root0 info0 ident0 over0)
   \<and> ident0 args0 = Some 42"
proof -
  let ?r = "\<lambda>ids. \<lparr> opt_coordinates = Some [30, 40], opt_isTouchEvent = False,
                   opt_dataItems = Some [''value''], opt_identities = (ids :: nat list) \<rparr>"
  have a: "makeTooltipEventArgs over0 root0 True False = Some args0"
    by (rule makeTooltipEventArgs_over0)
  have n: "ident_null args0 = None" and i: "ident0 args0 = Some 42"
    by (simp_all add: ident_null_def ident0_def args0_def)
  have r1: "Show (?r []) \<in> set (mouseover_tooltip w0 root0 info0 ident_null over0)"
    by (simp add: mouseover_tooltip_def canDisplayTooltip_w0_over0 a info0_def ident_null_def
          identities_of_def args0_def)
  have r2: "Show (?r [42]) \<in> set (mouseover_tooltip w0 root0 info0 ident0 over0)"
    by (simp add: mouseover_tooltip_def canDisplayTooltip_w0_over0 a info0_def ident0_def
          identities_of_def args0_def)
  from mouseover_show_identities [OF r1 a] mouseover_show_identities [OF r2 a] r1 r2 n i
  show ?thesis by simp
qed

subsection \<open>The mouse-move listener\<close>

text \<open>
  Claim C7. A selection is attached without reload on move (the flag false or omitted),
  after any operations; any events and calls of \<open>hide\<close> follow, whether or not a
  mouse-over among them showed a tooltip. A mouse-move on an element of the selection
  that passes the gate then resolves its coordinates and calls \<open>move\<close> with them, with
  \<open>dataItems\<close> undefined and with the identities that \<open>getDataPointIdentity\<close> gives for
  the arguments of this event.
\<close>

theorem mousemove_without_reload:
  assumes attached: "s = run ops (addTooltip (Some sel) info ident reload
                                   (run before (initial tooltipService rootElem delay)))"
    and service_on: "enabled tooltipService"
    and el: "el \<in> set sel"
    and no_rebind: "\<forall>op \<in> set ops. \<not> rebinds op"
    and gate: "canDisplayTooltip (wrapper s) (d3_event d3)"
    and reload: "reload \<noteq> Some True"
  shows "\<exists>a c. makeTooltipEventArgs d3 rootElem True False = Some a \<and> coordinates a = Some c \<and>
     trace (dispatch (node_id el) ''mousemove'' d3 s) =
       trace s @
       [GetDataPointIdentity a,
        Move \<lparr> opt_coordinates = Some c, opt_isTouchEvent = False, opt_dataItems = None,
               opt_identities = (case ident a of None \<Rightarrow> [] | Some i \<Rightarrow> [i]) \<rparr>]"
proof -
  let ?s0 = "run before (initial tooltipService rootElem delay)"
  let ?s1 = "addTooltip (Some sel) info ident reload ?s0"
  have wr: "wrapper ?s0 = createTooltipServiceWrapper tooltipService rootElem delay"
    by (simp add: run_wrapper initial_def)
  have en: "enabled (visualHostTooltipService (wrapper ?s0))"
    using service_on by (simp add: wr createTooltipServiceWrapper_def)
  have root: "rootElement (wrapper ?s0) = rootElem"
    by (simp add: wr createTooltipServiceWrapper_def)
  have tbl: "listeners s = listeners ?s1"
    using attached no_rebind by (simp add: run_listeners)
  have ok: "table_ok (listeners ?s1)"
    by (intro addTooltip_ok run_ok initial_ok)
  have "map_of (listeners ?s1) (node_id el, ''mousemove.tooltip'')
          = Some (MouseMove rootElem info ident reload)"
    using addTooltip_mousemove_listener [OF en el] by (simp add: root)
  with ok tbl have fired:
    "listeners_for (node_id el) ''mousemove'' (listeners s) = [MouseMove rootElem info ident reload]"
    by (simp add: listeners_for_mousemove)
  from mousemove_tooltip_without_reload [OF gate reload, of rootElem info ident]
  obtain a c where a: "makeTooltipEventArgs d3 rootElem True False = Some a"
    and c: "coordinates a = Some c"
    and m: "mousemove_tooltip (wrapper s) rootElem info ident reload d3 =
       [GetDataPointIdentity a,
        Move \<lparr> opt_coordinates = Some c, opt_isTouchEvent = False, opt_dataItems = None,
               opt_identities = (case ident a of None \<Rightarrow> [] | Some i \<Rightarrow> [i]) \<rparr>]"
    by blast
  have "trace (dispatch (node_id el) ''mousemove'' d3 s) =
          trace s @ mousemove_tooltip (wrapper s) rootElem info ident reload d3"
    by (simp add: dispatch_def fired)
  with a c m show ?thesis by simp
qed

text \<open>
  The witness: the mouse-over that precedes the move has a button pressed and is denied,
  so nothing was shown before the move.
\<close>

theorem mousemove_without_reload_witness:
  "trace (run [Dispatch 1 ''mouseover'' pressed0]
            (addTooltip (Some [bar0]) info0 ident0 (Some False) (run [] world0))) = []
   \<and> canDisplayTooltip w0 (d3_event move0)
   \<and> (\<exists>a c. makeTooltipEventArgs move0 root0 True False = Some a \<and> coordinates a = Some c \<and>
        trace (dispatch 1 ''mousemove'' move0
                 (run [Dispatch 1 ''mouseover'' pressed0]
                    (addTooltip (Some [bar0]) info0 ident0 (Some False) (run [] world0)))) =
          [GetDataPointIdentity a,
           Move \<lparr> opt_coordinates = Some c, opt_isTouchEvent = False, opt_dataItems = None,
                  opt_identities = (case ident0 a of None \<Rightarrow> [] | Some i \<Rightarrow> [i]) \<rparr>])"
proof -
  let ?s = "run [Dispatch 1 ''mouseover'' pressed0]
              (addTooltip (Some [bar0]) info0 ident0 (Some False)
                 (run [] (initial svc0 root0 None)))"
  have quiet: "trace ?s = []"
    by (simp add: run_def addTooltip_world0 [unfolded world0_def] dispatch_def
          listeners_for_def event_type_names mouseover_tooltip_def canDisplayTooltip_def
          pressed0_def)
  have gate: "canDisplayTooltip w0 (d3_event move0)"
    by (simp add: canDisplayTooltip_def w0_simps move0_def)
  have gate': "canDisplayTooltip (wrapper ?s) (d3_event move0)"
    using gate step_wrapper [of "AddTooltip (Some [bar0]) info0 ident0 (Some False)"]
    by (simp add: run_wrapper initial_def w0_def)
  have "\<exists>a c. makeTooltipEventArgs move0 root0 True False = Some a \<and> coordinates a = Some c \<and>
     trace (dispatch (node_id bar0) ''mousemove'' move0 ?s) =
       trace ?s @
       [GetDataPointIdentity a,
        Move \<lparr> opt_coordinates = Some c, opt_isTouchEvent = False, opt_dataItems = None,
               opt_identities = (case ident0 a of None \<Rightarrow> [] | Some i \<Rightarrow> [i]) \<rparr>]"
    by (rule mousemove_without_reload [OF refl _ _ _ gate'])
       (simp_all add: svc0_def)
  with quiet gate show ?thesis
    by (simp add: bar0_def world0_def)
qed

subsection \<open>addTooltip and hide\<close>

text \<open>
  Claim C4. If the selection is absent or empty, or the host's tooltip service is not
  enabled, \<open>addTooltip\<close> changes nothing: no listener is registered.
\<close>

theorem addTooltip_noop:
  "selection = None \<or> selection = Some [] \<or> \<not> enabled (visualHostTooltipService (wrapper s))
   \<Longrightarrow> addTooltip selection info ident reload s = s"
  by (auto simp: addTooltip_def selection_on_def Let_def split: option.splits)

theorem addTooltip_noop_witness:
  "listeners (addTooltip None info0 ident0 None world0) = []
   \<and> listeners (addTooltip (Some []) info0 ident0 None world0) = []
   \<and> \<not> enabled (visualHostTooltipService (wrapper (initial svc_off root0 None)))
   \<and> listeners (addTooltip (Some [bar0]) info0 ident0 None (initial svc_off root0 None)) = []
   \<and> listeners (addTooltip (Some [bar0]) info0 ident0 None world0) \<noteq> []"
proof -
  have off: "\<not> enabled (visualHostTooltipService
                (wrapper (initial svc_off root0 None :: (nat, string, nat) world)))"
    by (simp add: initial_def createTooltipServiceWrapper_def svc_off_def)
  have 1: "addTooltip None info0 ident0 None world0 = world0"
    by (rule addTooltip_noop) simp
  have 2: "addTooltip (Some []) info0 ident0 None world0 = world0"
    by (rule addTooltip_noop) simp
  have 3: "addTooltip (Some [bar0]) info0 ident0 None (initial svc_off root0 None)
             = initial svc_off root0 None"
    using off by (intro addTooltip_noop) simp
  from off 1 2 3 show ?thesis
    by (simp add: world0_simps addTooltip_world0) (simp add: initial_def)
qed

text \<open>
  Claim C10. In every state, \<open>hide\<close> calls the host's \<open>hide\<close> with \<open>immediately\<close> true
  and \<open>isTouchEvent\<close> false, and does nothing else; the gate is not consulted.
\<close>

theorem hide_always_hides:
  "trace (hide s) = trace s @ [Hide \<lparr> hide_isTouchEvent = False, hide_immediately = True \<rparr>]
   \<and> wrapper (hide s) = wrapper s \<and> listeners (hide s) = listeners s"
  by (simp add: hide_def)

theorem hide_always_hides_witness:
  "trace (hide (world0\<lparr> wrapper := w0\<lparr> handleTouchTimeoutId := Some 7 \<rparr> \<rparr>))
     = [Hide \<lparr> hide_isTouchEvent = False, hide_immediately = True \<rparr>]"
  using hide_always_hides [of "world0\<lparr> wrapper := w0\<lparr> handleTouchTimeoutId := Some 7 \<rparr> \<rparr>"]
  by (simp add: world0_simps)

end
